theory Spec2Isabelle
  imports Main
begin

section \<open>Data model\<close>

text \<open>
  The operations of \<^verbatim>\<open>src/api.ts\<close> translate a logical intent (install, add, remove,
  ensure) into the argument list of one of four package managers and hand that list
  to a subprocess. The managers are an enumeration, the manager's description is a
  record.
\<close>

datatype PackageManagerName = npm | yarn | pnpm | bun

record PackageManager =
  name :: PackageManagerName
  command :: string
  majorVersion :: string

text \<open>
  Modelled from the spec: the type declarations of \<^verbatim>\<open>./types\<close> are not part of the
  sources at hand. An options object has the fields cwd, silent, packageManager, dev,
  workspace and global, every one of them optional for the caller; a resolved options
  object is the same shape with cwd and packageManager present. One record with the
  type of those two fields as parameters gives both: \<open>'c\<close> and \<open>'p\<close> are option types
  for the caller's object and plain types for the resolved one. An absent field
  (\<^verbatim>\<open>undefined\<close>) is \<open>None\<close>.
\<close>

record ('c, 'p) options_shape =
  cwd :: 'c
  silent :: "bool option"
  packageManager :: 'p
  dev :: "bool option"
  workspace :: "string option"
  global :: "bool option"

type_synonym OperationOptions = "(string option, PackageManager option) options_shape"

type_synonym ResolvedOperationOptions = "(string, PackageManager) options_shape"

text \<open>
  The parameter of \<^verbatim>\<open>installDependencies\<close> carries one more optional field,
  \<^verbatim>\<open>frozenLockFile\<close>.
\<close>

record ('c, 'p) install_shape = "('c, 'p) options_shape" +
  frozenLockFile :: "bool option"

type_synonym InstallOptions = "(string option, PackageManager option) install_shape"

datatype error =
  DetectionError
  | ExecutionError int string
  | ExistenceCheckError

text \<open>
  One call of the command executor: the executable, the ordered argument list and the
  two settings \<^verbatim>\<open>{cwd, silent}\<close> it is given.
\<close>

record invocation =
  executable :: string
  arguments :: "string list"
  exec_cwd :: string
  exec_silent :: "bool option"

text \<open>
  What the operations consume from outside: the working directory of the process, the
  package manager detector, the table of workspace selectors, the dependency existence
  checker and the subprocess host (\<open>None\<close>: the subprocess exits with code 0).
\<close>

record env =
  process_cwd :: string
  detectPackageManager :: "string \<Rightarrow> PackageManager option"
  workspaceSelector :: "PackageManager \<Rightarrow> string \<Rightarrow> string list"
  doesDependencyExist :: "string \<Rightarrow> ResolvedOperationOptions \<Rightarrow> error + bool"
  spawn :: "invocation \<Rightarrow> error option"

text \<open>
  An asynchronous operation either rejects (\<open>Inl\<close>) or resolves (\<open>Inr\<close>), and it leaves
  the list of the executor calls it made, in order.
\<close>

type_synonym 'a outcome = "(error + 'a) \<times> invocation list"

text \<open>
  \<^verbatim>\<open>name: string | string[]\<close>: a single dependency name or an ordered list of names.
\<close>

datatype name_arg = Single string | Many "string list"

section \<open>Helpers of the utilities module\<close>

text \<open>JavaScript truthiness of an optional boolean: only \<^verbatim>\<open>true\<close> is truthy.\<close>

definition truthy :: "bool option \<Rightarrow> bool" where
  "truthy b = (b = Some True)"

text \<open>\<^verbatim>\<open>.filter(Boolean)\<close> on a list of strings: the empty string is the only falsy string.\<close>

definition filter_Boolean :: "string list \<Rightarrow> string list" where
  "filter_Boolean xs = filter (\<lambda>s. s \<noteq> '''') xs"

text \<open>
  Modelled from the spec: \<^verbatim>\<open>resolveOperationOptions\<close> of \<^verbatim>\<open>./_utils\<close> is not part of the
  sources at hand. It accepts partial options and returns resolved ones: an explicit
  packageManager takes precedence over detection in the file system, cwd defaults to
  the working directory of the process, the other fields are the caller's; it fails
  with the detector's error when nothing is detected and nothing was supplied.
\<close>

definition resolveOperationOptions ::
  "env \<Rightarrow> (string option, PackageManager option, 'z) options_shape_scheme
    \<Rightarrow> error + ResolvedOperationOptions" where
  "resolveOperationOptions e options =
     (let dir = (case cwd options of Some d \<Rightarrow> d | None \<Rightarrow> process_cwd e);
          found = (case packageManager options of
                     Some pm \<Rightarrow> Some pm
                   | None \<Rightarrow> detectPackageManager e dir)
      in case found of
           None \<Rightarrow> Inl DetectionError
         | Some pm \<Rightarrow>
             Inr \<lparr>cwd = dir, silent = silent options, packageManager = pm,
                  dev = dev options, workspace = workspace options,
                  global = global options\<rparr>)"

text \<open>
  A resolved options object passed where an options object is expected
  (\<^verbatim>\<open>addDependency(name, resolvedOptions)\<close>): the same fields, all present.
\<close>

definition asOperationOptions :: "ResolvedOperationOptions \<Rightarrow> OperationOptions" where
  "asOperationOptions r =
     \<lparr>cwd = Some (cwd r), silent = silent r, packageManager = Some (packageManager r),
      dev = dev r, workspace = workspace r, global = global r\<rparr>"

text \<open>
  Modelled from the spec: \<^verbatim>\<open>getWorkspaceArgs\<close> of \<^verbatim>\<open>./_utils\<close> is not part of the sources
  at hand. It yields the workspace-selector arguments for the target workspace name;
  without a workspace there is nothing to select. The selector tokens of each manager
  are a parameter.
\<close>

definition getWorkspaceArgs :: "env \<Rightarrow> ResolvedOperationOptions \<Rightarrow> string list" where
  "getWorkspaceArgs e options =
     (case workspace options of
        None \<Rightarrow> []
      | Some w \<Rightarrow> workspaceSelector e (packageManager options) w)"

text \<open>
  Modelled from the spec: \<^verbatim>\<open>executeCommand\<close> of \<^verbatim>\<open>./_utils\<close> is not part of the sources at
  hand. It spawns one subprocess for the executable and the argument list, resolves
  when the subprocess exits with code 0 and rejects otherwise; there is no retry.
\<close>

definition executeCommand ::
  "env \<Rightarrow> string \<Rightarrow> string list \<Rightarrow> string \<Rightarrow> bool option \<Rightarrow> unit outcome" where
  "executeCommand e exe as dir quiet =
     (let inv = \<lparr>executable = exe, arguments = as, exec_cwd = dir, exec_silent = quiet\<rparr>
      in (case spawn e inv of None \<Rightarrow> Inr () | Some err \<Rightarrow> Inl err, [inv]))"

section \<open>The operations of api.ts\<close>

subsection \<open>installDependencies\<close>

fun pmToInstallCommandMap :: "PackageManagerName \<Rightarrow> string list" where
  "pmToInstallCommandMap npm = [''ci'']"
| "pmToInstallCommandMap yarn = [''install'', ''--immutable'']"
| "pmToInstallCommandMap bun = [''install'', ''--frozen-lockfile'']"
| "pmToInstallCommandMap pnpm = [''install'', ''--frozen-lockfile'']"

definition installDependencies :: "env \<Rightarrow> InstallOptions \<Rightarrow> unit outcome" where
  "installDependencies e options =
     (case resolveOperationOptions e options of
        Inl err \<Rightarrow> (Inl err, [])
      | Inr resolvedOptions \<Rightarrow>
          (let commandArgs =
                 (if truthy (frozenLockFile options)
                  then pmToInstallCommandMap (name (packageManager resolvedOptions))
                  else [''install''])
           in executeCommand e (command (packageManager resolvedOptions)) commandArgs
                (cwd resolvedOptions) (silent resolvedOptions)))"

subsection \<open>addDependency and addDevDependency\<close>

text \<open>\<^verbatim>\<open>Array.isArray(name) ? name : [name]\<close>\<close>

fun names_of :: "name_arg \<Rightarrow> string list" where
  "names_of (Many ns) = ns"
| "names_of (Single n) = [n]"

text \<open>The constant \<^verbatim>\<open>args\<close> of \<^verbatim>\<open>addDependency\<close>.\<close>

definition addDependency_args ::
  "env \<Rightarrow> ResolvedOperationOptions \<Rightarrow> string list \<Rightarrow> string list" where
  "addDependency_args e resolvedOptions names =
     filter_Boolean
       (if name (packageManager resolvedOptions) = yarn
        then getWorkspaceArgs e resolvedOptions
             @ [if truthy (global resolvedOptions)
                   \<and> majorVersion (packageManager resolvedOptions) = ''1''
                then ''global'' else '''',
                ''add'',
                if truthy (dev resolvedOptions) then ''-D'' else '''']
             @ names
        else [if name (packageManager resolvedOptions) = npm then ''install'' else ''add'']
             @ getWorkspaceArgs e resolvedOptions
             @ [if truthy (dev resolvedOptions) then ''-D'' else '''',
                if truthy (global resolvedOptions) then ''-g'' else '''']
             @ names)"

definition addDependency :: "env \<Rightarrow> name_arg \<Rightarrow> OperationOptions \<Rightarrow> unit outcome" where
  "addDependency e nm options =
     (case resolveOperationOptions e options of
        Inl err \<Rightarrow> (Inl err, [])
      | Inr resolvedOptions \<Rightarrow>
          (let names = names_of nm;
               args = addDependency_args e resolvedOptions names
           in executeCommand e (command (packageManager resolvedOptions)) args
                (cwd resolvedOptions) (silent resolvedOptions)))"

text \<open>\<^verbatim>\<open>addDependency(name, { ...options, dev: true })\<close>\<close>

definition addDevDependency :: "env \<Rightarrow> name_arg \<Rightarrow> OperationOptions \<Rightarrow> unit outcome" where
  "addDevDependency e nm options = addDependency e nm (options\<lparr>dev := Some True\<rparr>)"

subsection \<open>removeDependency\<close>

text \<open>The constant \<^verbatim>\<open>args\<close> of \<^verbatim>\<open>removeDependency\<close>.\<close>

definition removeDependency_args ::
  "env \<Rightarrow> ResolvedOperationOptions \<Rightarrow> string \<Rightarrow> string list" where
  "removeDependency_args e resolvedOptions dep =
     filter_Boolean
       (if name (packageManager resolvedOptions) = yarn
        then [if truthy (global resolvedOptions)
                 \<and> majorVersion (packageManager resolvedOptions) = ''1''
              then ''global'' else '''']
             @ getWorkspaceArgs e resolvedOptions
             @ [''remove'',
                if truthy (dev resolvedOptions) then ''-D'' else '''',
                if truthy (global resolvedOptions) then ''-g'' else '''',
                dep]
        else [if name (packageManager resolvedOptions) = npm
              then ''uninstall'' else ''remove'']
             @ getWorkspaceArgs e resolvedOptions
             @ [if truthy (dev resolvedOptions) then ''-D'' else '''',
                if truthy (global resolvedOptions) then ''-g'' else '''',
                dep])"

definition removeDependency :: "env \<Rightarrow> string \<Rightarrow> OperationOptions \<Rightarrow> unit outcome" where
  "removeDependency e dep options =
     (case resolveOperationOptions e options of
        Inl err \<Rightarrow> (Inl err, [])
      | Inr resolvedOptions \<Rightarrow>
          (let args = removeDependency_args e resolvedOptions dep
           in executeCommand e (command (packageManager resolvedOptions)) args
                (cwd resolvedOptions) (silent resolvedOptions)))"

subsection \<open>ensureDependencyInstalled\<close>

text \<open>
  The result is \<^verbatim>\<open>true\<close> (\<open>Some True\<close>) when the dependency exists and \<^verbatim>\<open>undefined\<close>
  (\<open>None\<close>) after the delegation to \<^verbatim>\<open>addDependency\<close>. An error of the checker
  propagates, since the source catches nothing.
\<close>

definition ensureDependencyInstalled ::
  "env \<Rightarrow> string \<Rightarrow> OperationOptions \<Rightarrow> bool option outcome" where
  "ensureDependencyInstalled e dep options =
     (case resolveOperationOptions e options of
        Inl err \<Rightarrow> (Inl err, [])
      | Inr resolvedOptions \<Rightarrow>
          (case doesDependencyExist e dep resolvedOptions of
             Inl err \<Rightarrow> (Inl err, [])
           | Inr dependencyExists \<Rightarrow>
               if dependencyExists then (Inr (Some True), [])
               else (case addDependency e (Single dep) (asOperationOptions resolvedOptions) of
                       (Inl err, calls) \<Rightarrow> (Inl err, calls)
                     | (Inr u, calls) \<Rightarrow> (Inr None, calls))))"

section \<open>Concrete projects\<close>

text \<open>
  A project at \<^verbatim>\<open>/repo\<close> whose detector finds the given manager, where the dependency
  \<^verbatim>\<open>foo\<close> is present and every subprocess exits with code 0.
\<close>

definition project :: "PackageManager \<Rightarrow> env" where
  "project pm =
     \<lparr>process_cwd = ''/repo'',
      detectPackageManager = (\<lambda>d. if d = ''/repo'' then Some pm else None),
      workspaceSelector = (\<lambda>m w. [''--filter'', w]),
      doesDependencyExist = (\<lambda>dep r. Inr (dep = ''foo'')),
      spawn = (\<lambda>inv. None)\<rparr>"

definition manager :: "PackageManagerName \<Rightarrow> string \<Rightarrow> string \<Rightarrow> PackageManager" where
  "manager n c v = \<lparr>name = n, command = c, majorVersion = v\<rparr>"

text \<open>The default argument \<^verbatim>\<open>{}\<close>: no field is present.\<close>

definition no_options :: OperationOptions where
  "no_options =
     \<lparr>cwd = None, silent = None, packageManager = None, dev = None, workspace = None,
      global = None\<rparr>"

definition install_options :: "bool option \<Rightarrow> InstallOptions" where
  "install_options frozen =
     \<lparr>cwd = None, silent = None, packageManager = None, dev = None, workspace = None,
      global = None, frozenLockFile = frozen\<rparr>"

section \<open>Shared facts\<close>

lemma filter_Boolean_no_empty: "'''' \<notin> set (filter_Boolean xs)"
  by (simp add: filter_Boolean_def)

lemma snd_executeCommand:
  "snd (executeCommand e exe as dir quiet) =
     [\<lparr>executable = exe, arguments = as, exec_cwd = dir, exec_silent = quiet\<rparr>]"
  by (simp add: executeCommand_def Let_def)

lemma resolved_fields:
  assumes "resolveOperationOptions e options = Inr r"
  shows "silent r = silent options" and "dev r = dev options"
    and "workspace r = workspace options" and "global r = global options"
  using assms
  by (auto simp: resolveOperationOptions_def Let_def split: option.splits)

lemma resolve_resolved:
  assumes "resolveOperationOptions e options = Inr r"
  shows "resolveOperationOptions e' (asOperationOptions r) = Inr r"
  using assms
  by (auto simp: resolveOperationOptions_def asOperationOptions_def Let_def
      split: option.splits)

lemma installDependencies_resolved:
  assumes "resolveOperationOptions e options = Inr r"
  shows "installDependencies e options =
           executeCommand e (command (packageManager r))
             (if truthy (frozenLockFile options)
              then pmToInstallCommandMap (name (packageManager r)) else [''install''])
             (cwd r) (silent r)"
  using assms by (simp add: installDependencies_def Let_def)

lemma addDependency_resolved:
  assumes "resolveOperationOptions e options = Inr r"
  shows "addDependency e nm options =
           executeCommand e (command (packageManager r))
             (addDependency_args e r (names_of nm)) (cwd r) (silent r)"
  using assms by (simp add: addDependency_def Let_def)

lemma removeDependency_resolved:
  assumes "resolveOperationOptions e options = Inr r"
  shows "removeDependency e dep options =
           executeCommand e (command (packageManager r))
             (removeDependency_args e r dep) (cwd r) (silent r)"
  using assms by (simp add: removeDependency_def Let_def)

lemma resolve_project:
  "resolveOperationOptions (project pm) no_options =
     Inr \<lparr>cwd = ''/repo'', silent = None, packageManager = pm, dev = None,
          workspace = None, global = None\<rparr>"
  by (simp add: resolveOperationOptions_def project_def no_options_def)

lemma getWorkspaceArgs_none: "workspace r = None \<Longrightarrow> getWorkspaceArgs e r = []"
  by (simp add: getWorkspaceArgs_def)

lemma addDependency_calls:
  assumes "resolveOperationOptions e options = Inr r"
  shows "map arguments (snd (addDependency e nm options)) =
           [addDependency_args e r (names_of nm)]"
  by (simp add: addDependency_resolved [OF assms] snd_executeCommand)

lemma removeDependency_calls:
  assumes "resolveOperationOptions e options = Inr r"
  shows "map arguments (snd (removeDependency e dep options)) =
           [removeDependency_args e r dep]"
  by (simp add: removeDependency_resolved [OF assms] snd_executeCommand)

lemma resolve_project_with:
  "resolveOperationOptions (project pm)
      \<lparr>cwd = None, silent = None, packageManager = None, dev = d, workspace = w,
       global = g\<rparr> =
     Inr \<lparr>cwd = ''/repo'', silent = None, packageManager = pm, dev = d,
          workspace = w, global = g\<rparr>"
  by (simp add: resolveOperationOptions_def project_def)

section \<open>installDependencies\<close>

text \<open>
  C1: whenever the options resolve, \<^verbatim>\<open>installDependencies\<close> makes exactly one call of
  the command executor, with the command of the resolved package manager and the
  argument list \<^verbatim>\<open>["ci"]\<close> for npm, \<^verbatim>\<open>["install", "--immutable"]\<close> for yarn and
  \<^verbatim>\<open>["install", "--frozen-lockfile"]\<close> for pnpm and bun when \<^verbatim>\<open>frozenLockFile\<close> is true,
  and \<^verbatim>\<open>["install"]\<close> when it is absent or false.
\<close>

theorem installDependencies_table:
  assumes "resolveOperationOptions e options = Inr r"
  shows "snd (installDependencies e options) =
           [\<lparr>executable = command (packageManager r),
             arguments =
               (if frozenLockFile options = Some True
                then (case name (packageManager r) of
                        npm \<Rightarrow> [''ci'']
                      | yarn \<Rightarrow> [''install'', ''--immutable'']
                      | pnpm \<Rightarrow> [''install'', ''--frozen-lockfile'']
                      | bun \<Rightarrow> [''install'', ''--frozen-lockfile''])
                else [''install'']),
             exec_cwd = cwd r, exec_silent = silent r\<rparr>]"
proof -
  have table: "pmToInstallCommandMap n =
      (case n of npm \<Rightarrow> [''ci''] | yarn \<Rightarrow> [''install'', ''--immutable'']
       | pnpm \<Rightarrow> [''install'', ''--frozen-lockfile'']
       | bun \<Rightarrow> [''install'', ''--frozen-lockfile''])" for n
    by (cases n) simp_all
  show ?thesis
    unfolding installDependencies_resolved [OF assms] snd_executeCommand
    by (simp add: truthy_def table)
qed

text \<open>
  The table at work: pnpm and npm with a frozen lock file, yarn without.
\<close>

theorem installDependencies_table_witness:
  "snd (installDependencies (project (manager pnpm ''pnpm'' ''8'')) (install_options (Some True))) =
     [\<lparr>executable = ''pnpm'', arguments = [''install'', ''--frozen-lockfile''],
       exec_cwd = ''/repo'', exec_silent = None\<rparr>]
   \<and> snd (installDependencies (project (manager npm ''npm'' ''10'')) (install_options (Some True))) =
     [\<lparr>executable = ''npm'', arguments = [''ci''],
       exec_cwd = ''/repo'', exec_silent = None\<rparr>]
   \<and> snd (installDependencies (project (manager yarn ''yarn'' ''1'')) (install_options None)) =
     [\<lparr>executable = ''yarn'', arguments = [''install''],
       exec_cwd = ''/repo'', exec_silent = None\<rparr>]"
proof -
  have r: "resolveOperationOptions (project pm) (install_options f) =
      Inr \<lparr>cwd = ''/repo'', silent = None, packageManager = pm, dev = None,
           workspace = None, global = None\<rparr>" for pm f
    by (simp add: resolveOperationOptions_def project_def install_options_def)
  show ?thesis
    using installDependencies_table [OF r, of "manager pnpm ''pnpm'' ''8''" "Some True"]
      installDependencies_table [OF r, of "manager npm ''npm'' ''10''" "Some True"]
      installDependencies_table [OF r, of "manager yarn ''yarn'' ''1''" None]
    by (simp add: manager_def install_options_def)
qed

section \<open>The legacy global token of yarn\<close>

text \<open>
  C2: when the options resolve to yarn with majorVersion \<^verbatim>\<open>"1"\<close> and \<^verbatim>\<open>options.global\<close> is
  true, the argument list of \<^verbatim>\<open>addDependency\<close> holds the token \<^verbatim>\<open>global\<close> immediately
  before \<^verbatim>\<open>add\<close>. When they resolve to yarn with another majorVersion, the legacy
  \<^verbatim>\<open>global\<close> token is absent, whatever \<^verbatim>\<open>options.global\<close> is: the list is the
  workspace-selector tokens, \<^verbatim>\<open>add\<close>, \<^verbatim>\<open>-D\<close> if dev, and the non-empty names, so the only
  \<^verbatim>\<open>global\<close> it can hold is a workspace-selector token or a name the caller supplied.
\<close>

theorem addDependency_yarn_global:
  assumes "resolveOperationOptions e options = Inr r"
    and "name (packageManager r) = yarn"
  shows "(majorVersion (packageManager r) = ''1'' \<and> global options = Some True \<longrightarrow>
            map arguments (snd (addDependency e nm options)) =
              [filter_Boolean (getWorkspaceArgs e r) @ [''global'', ''add'']
               @ (if dev options = Some True then [''-D''] else [])
               @ filter_Boolean (names_of nm)])
       \<and> (majorVersion (packageManager r) \<noteq> ''1'' \<longrightarrow>
            map arguments (snd (addDependency e nm options)) =
              [filter_Boolean (getWorkspaceArgs e r) @ [''add'']
               @ (if dev options = Some True then [''-D''] else [])
               @ filter_Boolean (names_of nm)]
            \<and> (''global'' \<in> set (addDependency_args e r (names_of nm)) \<longleftrightarrow>
                 ''global'' \<in> set (getWorkspaceArgs e r) \<or> ''global'' \<in> set (names_of nm)))"
proof -
  have g: "global r = global options" and d: "dev r = dev options"
    using resolved_fields [OF assms(1)] by simp_all
  have args: "addDependency_args e r ns =
      filter_Boolean (getWorkspaceArgs e r)
      @ (if global options = Some True \<and> majorVersion (packageManager r) = ''1''
         then [''global''] else [])
      @ [''add''] @ (if dev options = Some True then [''-D''] else [])
      @ filter_Boolean ns" for ns
    using assms(2) by (simp add: addDependency_args_def filter_Boolean_def truthy_def g d)
  show ?thesis
    unfolding addDependency_calls [OF assms(1)] args
    by (auto simp: filter_Boolean_def)
qed

text \<open>
  The dependency \<^verbatim>\<open>foo\<close> added globally under yarn 1 and under yarn 3.
\<close>

theorem addDependency_yarn_global_witness:
  "map arguments (snd (addDependency (project (manager yarn ''yarn'' ''1'')) (Single ''foo'')
       (no_options\<lparr>global := Some True\<rparr>))) = [[''global'', ''add'', ''foo'']]
   \<and> map arguments (snd (addDependency (project (manager yarn ''yarn'' ''3'')) (Single ''foo'')
       (no_options\<lparr>global := Some True\<rparr>))) = [[''add'', ''foo'']]"
proof -
  let ?o = "no_options\<lparr>global := Some True\<rparr>"
  have r: "resolveOperationOptions (project pm) ?o =
      Inr \<lparr>cwd = ''/repo'', silent = None, packageManager = pm, dev = None,
           workspace = None, global = Some True\<rparr>" for pm
    by (simp add: no_options_def resolve_project_with)
  show ?thesis
    using addDependency_yarn_global [OF r, of "manager yarn ''yarn'' ''1''" "Single ''foo''"]
      addDependency_yarn_global [OF r, of "manager yarn ''yarn'' ''3''" "Single ''foo''"]
    by (simp add: manager_def no_options_def getWorkspaceArgs_def filter_Boolean_def)
qed

section \<open>ensureDependencyInstalled\<close>

text \<open>
  C3: when the options resolve and the existence checker reports the dependency present,
  \<^verbatim>\<open>ensureDependencyInstalled\<close> makes no call of the command executor and returns
  \<^verbatim>\<open>true\<close>. When the checker reports it absent, it is \<^verbatim>\<open>addDependency\<close> on the resolved
  options, which carry the caller's dev and workspace settings, and the one executor call
  is the one \<^verbatim>\<open>addDependency\<close> synthesizes from the resolved options.
\<close>

theorem ensureDependencyInstalled_cases:
  assumes "resolveOperationOptions e options = Inr r"
  shows "(doesDependencyExist e dep r = Inr True \<longrightarrow>
            ensureDependencyInstalled e dep options = (Inr (Some True), []))
       \<and> (doesDependencyExist e dep r = Inr False \<longrightarrow>
            ensureDependencyInstalled e dep options =
              (case addDependency e (Single dep) (asOperationOptions r) of
                 (res, calls) \<Rightarrow> (map_sum id (\<lambda>u. None) res, calls))
            \<and> dev (asOperationOptions r) = dev options
            \<and> workspace (asOperationOptions r) = workspace options
            \<and> snd (ensureDependencyInstalled e dep options) =
                [\<lparr>executable = command (packageManager r),
                  arguments = addDependency_args e r [dep],
                  exec_cwd = cwd r, exec_silent = silent r\<rparr>])"
proof -
  have again: "resolveOperationOptions e (asOperationOptions r) = Inr r"
    by (rule resolve_resolved [OF assms])
  have fields: "dev (asOperationOptions r) = dev options"
    "workspace (asOperationOptions r) = workspace options"
    using resolved_fields [OF assms] by (simp_all add: asOperationOptions_def)
  have present: "ensureDependencyInstalled e dep options = (Inr (Some True), [])"
    if "doesDependencyExist e dep r = Inr True"
    using that assms by (simp add: ensureDependencyInstalled_def)
  have absent: "ensureDependencyInstalled e dep options =
      (case addDependency e (Single dep) (asOperationOptions r) of
         (res, calls) \<Rightarrow> (map_sum id (\<lambda>u. None) res, calls))"
    if "doesDependencyExist e dep r = Inr False"
    using that assms
    by (simp add: ensureDependencyInstalled_def split: prod.splits sum.splits)
  have calls: "snd (ensureDependencyInstalled e dep options) =
      [\<lparr>executable = command (packageManager r),
        arguments = addDependency_args e r [dep],
        exec_cwd = cwd r, exec_silent = silent r\<rparr>]"
    if "doesDependencyExist e dep r = Inr False"
    unfolding absent [OF that] addDependency_resolved [OF again]
    by (simp add: executeCommand_def Let_def)
  show ?thesis
    using present absent calls fields by blast
qed

text \<open>
  In the npm project \<^verbatim>\<open>foo\<close> is present and \<^verbatim>\<open>bar\<close> is not.
\<close>

theorem ensureDependencyInstalled_cases_witness:
  "ensureDependencyInstalled (project (manager npm ''npm'' ''10'')) ''foo''
       (no_options\<lparr>dev := Some True\<rparr>) = (Inr (Some True), [])
   \<and> ensureDependencyInstalled (project (manager npm ''npm'' ''10'')) ''bar''
       (no_options\<lparr>dev := Some True\<rparr>) =
       (Inr None, [\<lparr>executable = ''npm'', arguments = [''install'', ''-D'', ''bar''],
                    exec_cwd = ''/repo'', exec_silent = None\<rparr>])"
proof -
  let ?e = "project (manager npm ''npm'' ''10'')"
  let ?r = "\<lparr>cwd = ''/repo'', silent = None, packageManager = manager npm ''npm'' ''10'',
             dev = Some True, workspace = None, global = None\<rparr>"
  have r: "resolveOperationOptions ?e (no_options\<lparr>dev := Some True\<rparr>) = Inr ?r"
    by (simp add: no_options_def resolve_project_with)
  have foo: "doesDependencyExist ?e ''foo'' ?r = Inr True"
    and bar: "doesDependencyExist ?e ''bar'' ?r = Inr False"
    by (simp_all add: project_def)
  have again: "resolveOperationOptions ?e (asOperationOptions ?r) = Inr ?r"
    by (rule resolve_resolved [OF r])
  have args: "addDependency_args ?e ?r [''bar''] = [''install'', ''-D'', ''bar'']"
    by (simp add: addDependency_args_def manager_def getWorkspaceArgs_def
        filter_Boolean_def truthy_def)
  have run: "addDependency ?e (Single ''bar'') (asOperationOptions ?r) =
      (Inr (), [\<lparr>executable = ''npm'', arguments = [''install'', ''-D'', ''bar''],
                 exec_cwd = ''/repo'', exec_silent = None\<rparr>])"
    unfolding addDependency_resolved [OF again]
    by (simp add: args executeCommand_def Let_def) (simp add: project_def manager_def)
  show ?thesis
    using ensureDependencyInstalled_cases [OF r, of "''foo''"]
      ensureDependencyInstalled_cases [OF r, of "''bar''"] foo bar
    by (simp add: run)
qed

section \<open>removeDependency\<close>

text \<open>
  C4: for every non-empty name, \<^verbatim>\<open>removeDependency\<close> appends exactly that one name to the
  tokens it synthesizes without a name; with no dev, global or workspace setting the
  argument list is \<^verbatim>\<open>["uninstall", name]\<close> under npm and \<^verbatim>\<open>["remove", name]\<close> under yarn,
  pnpm and bun.
\<close>

theorem removeDependency_default:
  assumes "resolveOperationOptions e options = Inr r"
    and "dep \<noteq> ''''"
  shows "map arguments (snd (removeDependency e dep options)) =
           [removeDependency_args e r '''' @ [dep]]
       \<and> (dev options \<noteq> Some True \<and> global options \<noteq> Some True
            \<and> workspace options = None \<longrightarrow>
            (name (packageManager r) = npm \<longrightarrow>
               map arguments (snd (removeDependency e dep options)) = [[''uninstall'', dep]])
          \<and> (name (packageManager r) \<in> {yarn, pnpm, bun} \<longrightarrow>
               map arguments (snd (removeDependency e dep options)) = [[''remove'', dep]]))"
proof -
  have f: "global r = global options" "dev r = dev options"
    "workspace r = workspace options"
    using resolved_fields [OF assms(1)] by simp_all
  have one: "removeDependency_args e r dep = removeDependency_args e r '''' @ [dep]"
    using assms(2) by (simp add: removeDependency_args_def filter_Boolean_def)
  have plain: "removeDependency_args e r dep =
      [if name (packageManager r) = npm then ''uninstall'' else ''remove'', dep]"
    if "dev options \<noteq> Some True" "global options \<noteq> Some True" "workspace options = None"
    using that assms(2)
    by (simp add: removeDependency_args_def filter_Boolean_def truthy_def f
        getWorkspaceArgs_none)
  show ?thesis
    unfolding removeDependency_calls [OF assms(1)]
    using one plain by auto
qed

text \<open>
  \<^verbatim>\<open>removeDependency("foo")\<close> under npm and under yarn.
\<close>

theorem removeDependency_default_witness:
  "map arguments (snd (removeDependency (project (manager npm ''npm'' ''10'')) ''foo''
       no_options)) = [[''uninstall'', ''foo'']]
   \<and> map arguments (snd (removeDependency (project (manager yarn ''yarn'' ''1'')) ''foo''
       no_options)) = [[''remove'', ''foo'']]"
proof -
  have ne: "''foo'' \<noteq> ''''" by simp
  show ?thesis
    using removeDependency_default [OF resolve_project ne, of "manager npm ''npm'' ''10''",
        THEN conjunct2]
      removeDependency_default [OF resolve_project ne, of "manager yarn ''yarn'' ''1''",
        THEN conjunct2]
    by (simp add: manager_def no_options_def)
qed

text \<open>
  The empty name is filtered out with the other empty tokens: under npm the list is
  \<^verbatim>\<open>["uninstall"]\<close>, with no name appended.
\<close>

theorem removeDependency_default_counterexample:
  "map arguments (snd (removeDependency (project (manager npm ''npm'' ''10'')) ''''
       no_options)) = [[''uninstall'']]
   \<and> [''uninstall''] \<noteq> [''uninstall'', '''']"
  unfolding removeDependency_calls [OF resolve_project]
  by (simp add: removeDependency_args_def manager_def getWorkspaceArgs_def
      filter_Boolean_def truthy_def)

section \<open>The dev flag of addDependency\<close>

text \<open>
  C5: with dev set and neither workspace nor global, \<^verbatim>\<open>addDependency("foo")\<close> synthesizes
  \<^verbatim>\<open>["install", "-D", "foo"]\<close> under npm and \<^verbatim>\<open>["add", "-D", "foo"]\<close> under pnpm and bun.
\<close>

theorem addDependency_dev_flag:
  assumes "resolveOperationOptions e options = Inr r"
    and "dev options = Some True"
    and "workspace options = None"
    and "global options \<noteq> Some True"
  shows "(name (packageManager r) = npm \<longrightarrow>
            map arguments (snd (addDependency e (Single ''foo'') options)) =
              [[''install'', ''-D'', ''foo'']])
       \<and> (name (packageManager r) \<in> {pnpm, bun} \<longrightarrow>
            map arguments (snd (addDependency e (Single ''foo'') options)) =
              [[''add'', ''-D'', ''foo'']])"
proof -
  have f: "global r = global options" "dev r = dev options"
    "workspace r = workspace options"
    using resolved_fields [OF assms(1)] by simp_all
  show ?thesis
    unfolding addDependency_calls [OF assms(1)]
    using assms(2-4)
    by (auto simp: addDependency_args_def filter_Boolean_def truthy_def f
        getWorkspaceArgs_none)
qed

text \<open>
  \<^verbatim>\<open>addDependency("foo", {dev: true})\<close> under npm and under bun.
\<close>

theorem addDependency_dev_flag_witness:
  "map arguments (snd (addDependency (project (manager npm ''npm'' ''10'')) (Single ''foo'')
       (no_options\<lparr>dev := Some True\<rparr>))) = [[''install'', ''-D'', ''foo'']]
   \<and> map arguments (snd (addDependency (project (manager bun ''bun'' ''1'')) (Single ''foo'')
       (no_options\<lparr>dev := Some True\<rparr>))) = [[''add'', ''-D'', ''foo'']]"
proof -
  let ?o = "no_options\<lparr>dev := Some True\<rparr>"
  have r: "resolveOperationOptions (project pm) ?o =
      Inr \<lparr>cwd = ''/repo'', silent = None, packageManager = pm, dev = Some True,
           workspace = None, global = None\<rparr>" for pm
    by (simp add: no_options_def resolve_project_with)
  have d: "dev ?o = Some True" and w: "workspace ?o = None" and g: "global ?o \<noteq> Some True"
    by (simp_all add: no_options_def)
  show ?thesis
    using addDependency_dev_flag [OF r d w g, of "manager npm ''npm'' ''10''"]
      addDependency_dev_flag [OF r d w g, of "manager bun ''bun'' ''1''"]
    by (simp add: manager_def)
qed

section \<open>addDevDependency\<close>

text \<open>
  C6: \<^verbatim>\<open>addDevDependency(name, options)\<close> is \<^verbatim>\<open>addDependency\<close> on the options with dev set
  to true; when the default options resolve to pnpm, \<^verbatim>\<open>addDevDependency("left-pad")\<close> makes
  one executor call, of the resolved manager's command with \<^verbatim>\<open>["add", "-D", "left-pad"]\<close>.
\<close>

theorem addDevDependency_delegates:
  "addDevDependency e nm options = addDependency e nm (options\<lparr>dev := Some True\<rparr>)
   \<and> (resolveOperationOptions e (no_options\<lparr>dev := Some True\<rparr>) = Inr r
        \<and> name (packageManager r) = pnpm \<longrightarrow>
        snd (addDevDependency e (Single ''left-pad'') no_options) =
          [\<lparr>executable = command (packageManager r),
            arguments = [''add'', ''-D'', ''left-pad''],
            exec_cwd = cwd r, exec_silent = silent r\<rparr>])"
proof -
  have "addDependency_args e r [''left-pad''] = [''add'', ''-D'', ''left-pad'']"
    if r: "resolveOperationOptions e (no_options\<lparr>dev := Some True\<rparr>) = Inr r"
      and p: "name (packageManager r) = pnpm"
  proof -
    have "dev r = Some True" "workspace r = None" "global r = None"
      using resolved_fields [OF r] by (simp_all add: no_options_def)
    then show ?thesis
      using p
      by (simp add: addDependency_args_def filter_Boolean_def truthy_def
          getWorkspaceArgs_none)
  qed
  then show ?thesis
    by (auto simp: addDevDependency_def addDependency_resolved snd_executeCommand)
qed

text \<open>
  A project whose detector finds pnpm with the command \<^verbatim>\<open>pnpm\<close>.
\<close>

theorem addDevDependency_delegates_witness:
  "addDevDependency (project (manager pnpm ''pnpm'' ''8'')) (Single ''left-pad'') no_options =
     (Inr (), [\<lparr>executable = ''pnpm'', arguments = [''add'', ''-D'', ''left-pad''],
                exec_cwd = ''/repo'', exec_silent = None\<rparr>])"
proof -
  let ?e = "project (manager pnpm ''pnpm'' ''8'')"
  let ?r = "\<lparr>cwd = ''/repo'', silent = None, packageManager = manager pnpm ''pnpm'' ''8'',
             dev = Some True, workspace = None, global = None\<rparr>"
  have r: "resolveOperationOptions ?e (no_options\<lparr>dev := Some True\<rparr>) = Inr ?r"
    by (simp add: no_options_def resolve_project_with)
  have p: "name (packageManager ?r) = pnpm"
    by (simp add: manager_def)
  have calls: "snd (addDevDependency ?e (Single ''left-pad'') no_options) =
      [\<lparr>executable = ''pnpm'', arguments = [''add'', ''-D'', ''left-pad''],
        exec_cwd = ''/repo'', exec_silent = None\<rparr>]"
    using addDevDependency_delegates
      [of ?e "Single ''left-pad''" no_options ?r, THEN conjunct2] r p
    by (simp add: manager_def)
  have res: "fst (addDevDependency ?e (Single ''left-pad'') no_options) = Inr ()"
    unfolding addDevDependency_def addDependency_resolved [OF r]
    by (simp add: executeCommand_def Let_def project_def)
  show ?thesis
    using calls res by (simp add: prod_eq_iff)
qed

section \<open>No empty token reaches the executor\<close>

text \<open>
  C7: whatever the manager, its majorVersion and the dev, global and workspace settings,
  no argument list that \<^verbatim>\<open>addDependency\<close> or \<^verbatim>\<open>removeDependency\<close> passes to the command
  executor holds the empty string.
\<close>

theorem no_empty_token:
  "(\<forall>inv \<in> set (snd (addDependency e nm options)). '''' \<notin> set (arguments inv))
   \<and> (\<forall>inv \<in> set (snd (removeDependency e dep options)). '''' \<notin> set (arguments inv))"
proof -
  have a: "'''' \<notin> set (addDependency_args e r ns)" for r ns
    unfolding addDependency_args_def by (rule filter_Boolean_no_empty)
  have b: "'''' \<notin> set (removeDependency_args e r dep)" for r
    unfolding removeDependency_args_def by (rule filter_Boolean_no_empty)
  show ?thesis
    using a b
    by (auto simp: addDependency_def removeDependency_def executeCommand_def Let_def
        split: sum.splits)
qed

text \<open>
  Yarn 3 with the global setting and an empty name in the list, and a plain removal
  under npm.
\<close>

theorem no_empty_token_witness:
  "snd (addDependency (project (manager yarn ''yarn'' ''3'')) (Many ['''', ''foo''])
       (no_options\<lparr>global := Some True\<rparr>)) =
     [\<lparr>executable = ''yarn'', arguments = [''add'', ''foo''],
       exec_cwd = ''/repo'', exec_silent = None\<rparr>]
   \<and> '''' \<notin> set [''add'', ''foo'']
   \<and> snd (removeDependency (project (manager npm ''npm'' ''10'')) ''foo'' no_options) =
     [\<lparr>executable = ''npm'', arguments = [''uninstall'', ''foo''],
       exec_cwd = ''/repo'', exec_silent = None\<rparr>]
   \<and> '''' \<notin> set [''uninstall'', ''foo'']"
proof -
  have r: "resolveOperationOptions (project pm) (no_options\<lparr>global := Some True\<rparr>) =
      Inr \<lparr>cwd = ''/repo'', silent = None, packageManager = pm, dev = None,
           workspace = None, global = Some True\<rparr>" for pm
    by (simp add: no_options_def resolve_project_with)
  have a: "snd (addDependency (project (manager yarn ''yarn'' ''3'')) (Many ['''', ''foo''])
       (no_options\<lparr>global := Some True\<rparr>)) =
     [\<lparr>executable = ''yarn'', arguments = [''add'', ''foo''],
       exec_cwd = ''/repo'', exec_silent = None\<rparr>]"
    unfolding addDependency_resolved [OF r] snd_executeCommand
    by (simp add: addDependency_args_def manager_def getWorkspaceArgs_def
        filter_Boolean_def truthy_def)
  have b: "snd (removeDependency (project (manager npm ''npm'' ''10'')) ''foo'' no_options) =
     [\<lparr>executable = ''npm'', arguments = [''uninstall'', ''foo''],
       exec_cwd = ''/repo'', exec_silent = None\<rparr>]"
    unfolding removeDependency_resolved [OF resolve_project] snd_executeCommand
    by (simp add: removeDependency_args_def manager_def getWorkspaceArgs_def
        filter_Boolean_def truthy_def)
  show ?thesis
    using no_empty_token [of "project (manager yarn ''yarn'' ''3'')" "Many ['''', ''foo'']"
        "no_options\<lparr>global := Some True\<rparr>" "''foo''", THEN conjunct1]
      no_empty_token [of "project (manager npm ''npm'' ''10'')" "Single ''foo''" no_options
        "''foo''", THEN conjunct2]
    unfolding a b by simp
qed

section \<open>Resolving resolved options\<close>

text \<open>
  C8: resolving the result of \<^verbatim>\<open>resolveOperationOptions\<close> again yields the same object,
  whatever the detector and the working directory of the process are then (nothing is
  detected again); so \<^verbatim>\<open>addDependency\<close> on resolved options, as
  \<^verbatim>\<open>ensureDependencyInstalled\<close> calls it, runs on exactly those options.
\<close>

theorem resolveOperationOptions_idempotent:
  assumes "resolveOperationOptions e options = Inr r"
  shows "resolveOperationOptions e' (asOperationOptions r) = Inr r
       \<and> addDependency e nm (asOperationOptions r) =
           executeCommand e (command (packageManager r))
             (addDependency_args e r (names_of nm)) (cwd r) (silent r)"
proof -
  have again: "resolveOperationOptions d (asOperationOptions r) = Inr r" for d
    using assms
    by (auto simp: resolveOperationOptions_def asOperationOptions_def Let_def
        split: option.splits)
  show ?thesis
    using again [of e'] addDependency_resolved [OF again [of e]] by simp
qed

text \<open>
  Options resolved in a pnpm project stay the same when resolved again where the
  detector would find npm.
\<close>

theorem resolveOperationOptions_idempotent_witness:
  "resolveOperationOptions (project (manager pnpm ''pnpm'' ''8'')) no_options =
     Inr \<lparr>cwd = ''/repo'', silent = None, packageManager = manager pnpm ''pnpm'' ''8'',
          dev = None, workspace = None, global = None\<rparr>
   \<and> resolveOperationOptions (project (manager npm ''npm'' ''10''))
       (asOperationOptions
          \<lparr>cwd = ''/repo'', silent = None, packageManager = manager pnpm ''pnpm'' ''8'',
           dev = None, workspace = None, global = None\<rparr>) =
     Inr \<lparr>cwd = ''/repo'', silent = None, packageManager = manager pnpm ''pnpm'' ''8'',
          dev = None, workspace = None, global = None\<rparr>"
proof -
  note r = resolve_project [of "manager pnpm ''pnpm'' ''8''"]
  show ?thesis
    using resolveOperationOptions_idempotent [OF r, of "project (manager npm ''npm'' ''10'')"] r
    by simp
qed

section \<open>One name or a list of names\<close>

text \<open>
  C9: \<^verbatim>\<open>addDependency(n, options)\<close> and \<^verbatim>\<open>addDependency([n], options)\<close> have the same
  outcome and make the same executor call, for every name \<^verbatim>\<open>n\<close>; for every list of names,
  the argument list is the tokens synthesized without names followed by the non-empty
  names in their given order, and the empty names are dropped.
\<close>

theorem addDependency_names_order:
  "addDependency e (Single n) options = addDependency e (Many [n]) options
   \<and> (resolveOperationOptions e options = Inr r \<longrightarrow>
        map arguments (snd (addDependency e nm options)) =
          [addDependency_args e r [] @ filter (\<lambda>n. n \<noteq> '''') (names_of nm)])"
proof -
  have same: "addDependency e (Single n) options = addDependency e (Many [n]) options"
    by (simp add: addDependency_def split: sum.splits)
  have suffix: "addDependency_args e r (names_of nm) =
      addDependency_args e r [] @ filter (\<lambda>n. n \<noteq> '''') (names_of nm)"
    by (simp add: addDependency_args_def filter_Boolean_def)
  have "map arguments (snd (addDependency e nm options)) =
      [addDependency_args e r [] @ filter (\<lambda>n. n \<noteq> '''') (names_of nm)]"
    if "resolveOperationOptions e options = Inr r"
    unfolding addDependency_calls [OF that] using suffix by simp
  with same show ?thesis by blast
qed

text \<open>
  Three names after \<^verbatim>\<open>install -D\<close>.
\<close>

theorem addDependency_names_order_witness:
  "map arguments (snd (addDependency (project (manager npm ''npm'' ''10''))
       (Many [''foo'', ''bar'', ''baz'']) (no_options\<lparr>dev := Some True\<rparr>))) =
     [[''install'', ''-D'', ''foo'', ''bar'', ''baz'']]"
proof -
  let ?e = "project (manager npm ''npm'' ''10'')"
  let ?r = "\<lparr>cwd = ''/repo'', silent = None, packageManager = manager npm ''npm'' ''10'',
             dev = Some True, workspace = None, global = None\<rparr>"
  have r: "resolveOperationOptions ?e (no_options\<lparr>dev := Some True\<rparr>) = Inr ?r"
    by (simp add: no_options_def resolve_project_with)
  have flags: "addDependency_args ?e ?r [] = [''install'', ''-D'']"
    by (simp add: addDependency_args_def manager_def getWorkspaceArgs_def
        filter_Boolean_def truthy_def)
  show ?thesis
    using addDependency_names_order [of ?e _ "no_options\<lparr>dev := Some True\<rparr>" ?r
        "Many [''foo'', ''bar'', ''baz'']", THEN conjunct2] r
    by (simp add: flags)
qed

text \<open>
  The empty name of the list \<^verbatim>\<open>["", "foo"]\<close> is not in the argument list.
\<close>

theorem addDependency_names_order_counterexample:
  "map arguments (snd (addDependency (project (manager npm ''npm'' ''10''))
       (Many ['''', ''foo'']) no_options)) = [[''install'', ''foo'']]
   \<and> '''' \<in> set ['''', ''foo'']
   \<and> '''' \<notin> set [''install'', ''foo'']"
  unfolding addDependency_calls [OF resolve_project]
  by (simp add: addDependency_args_def manager_def getWorkspaceArgs_def
      filter_Boolean_def truthy_def)

section \<open>The empty dependency name\<close>

text \<open>
  C10: whenever the options resolve, \<^verbatim>\<open>addDependency("")\<close> and \<^verbatim>\<open>removeDependency("")\<close>
  still make their one executor call, with the argument list synthesized without any
  name; under npm and no dev, global or workspace setting \<^verbatim>\<open>addDependency("")\<close> passes
  exactly \<^verbatim>\<open>["install"]\<close>.
\<close>

theorem empty_name_dropped:
  assumes "resolveOperationOptions e options = Inr r"
  shows "snd (addDependency e (Single '''') options) =
           [\<lparr>executable = command (packageManager r),
             arguments = addDependency_args e r [],
             exec_cwd = cwd r, exec_silent = silent r\<rparr>]
       \<and> snd (removeDependency e '''' options) =
           [\<lparr>executable = command (packageManager r),
             arguments =
               filter_Boolean
                 (if name (packageManager r) = yarn
                  then [if truthy (global r) \<and> majorVersion (packageManager r) = ''1''
                        then ''global'' else '''']
                       @ getWorkspaceArgs e r
                       @ [''remove'', if truthy (dev r) then ''-D'' else '''',
                          if truthy (global r) then ''-g'' else '''']
                  else [if name (packageManager r) = npm then ''uninstall'' else ''remove'']
                       @ getWorkspaceArgs e r
                       @ [if truthy (dev r) then ''-D'' else '''',
                          if truthy (global r) then ''-g'' else '''']),
             exec_cwd = cwd r, exec_silent = silent r\<rparr>]
       \<and> (name (packageManager r) = npm \<and> dev options \<noteq> Some True
            \<and> global options \<noteq> Some True \<and> workspace options = None \<longrightarrow>
            map arguments (snd (addDependency e (Single '''') options)) = [[''install'']])"
proof -
  have f: "global r = global options" "dev r = dev options"
    "workspace r = workspace options"
    using resolved_fields [OF assms] by simp_all
  have a: "addDependency_args e r [''''] = addDependency_args e r []"
    by (simp add: addDependency_args_def filter_Boolean_def)
  have plain: "addDependency_args e r [] = [''install'']"
    if "name (packageManager r) = npm" "dev options \<noteq> Some True"
      "global options \<noteq> Some True" "workspace options = None"
    using that
    by (simp add: addDependency_args_def filter_Boolean_def truthy_def f
        getWorkspaceArgs_none)
  show ?thesis
    unfolding addDependency_resolved [OF assms] removeDependency_resolved [OF assms]
      snd_executeCommand
    using plain by (simp add: a removeDependency_args_def filter_Boolean_def)
qed

text \<open>
  The empty name under npm.
\<close>

theorem empty_name_dropped_witness:
  "snd (addDependency (project (manager npm ''npm'' ''10'')) (Single '''') no_options) =
     [\<lparr>executable = ''npm'', arguments = [''install''],
       exec_cwd = ''/repo'', exec_silent = None\<rparr>]
   \<and> snd (removeDependency (project (manager npm ''npm'' ''10'')) '''' no_options) =
     [\<lparr>executable = ''npm'', arguments = [''uninstall''],
       exec_cwd = ''/repo'', exec_silent = None\<rparr>]"
proof -
  let ?e = "project (manager npm ''npm'' ''10'')"
  let ?r = "\<lparr>cwd = ''/repo'', silent = None, packageManager = manager npm ''npm'' ''10'',
             dev = None, workspace = None, global = None\<rparr>"
  have flags: "addDependency_args ?e ?r [] = [''install'']"
    by (simp add: addDependency_args_def manager_def getWorkspaceArgs_def
        filter_Boolean_def truthy_def)
  show ?thesis
    using empty_name_dropped [OF resolve_project, of "manager npm ''npm'' ''10''"]
    by (simp add: flags) (simp add: manager_def getWorkspaceArgs_def filter_Boolean_def
        truthy_def)
qed

end
